theory Spec2Isabelle
  imports Main
begin

section \<open>Text and regular expressions as the scanner uses them\<close>

text \<open>
  A Python string is a sequence of code points. The model uses \<open>string\<close>, so it covers
  text whose code points are below 256; the character classes below are the ones
  Python's \<open>re\<close> module uses for \<open>str\<close> patterns on that range.
\<close>

datatype cls = Space | WordChar | AnyChar

definition is_space :: "char \<Rightarrow> bool" where
  "is_space c =
     (let n = (of_char c :: nat)
      in (9 \<le> n \<and> n \<le> 13) \<or> (28 \<le> n \<and> n \<le> 32) \<or> n = 133 \<or> n = 160)"

definition is_word :: "char \<Rightarrow> bool" where
  "is_word c =
     (let n = (of_char c :: nat)
      in (48 \<le> n \<and> n \<le> 57) \<or> (65 \<le> n \<and> n \<le> 90) \<or> n = 95 \<or> (97 \<le> n \<and> n \<le> 122)
         \<or> n = 170 \<or> n = 178 \<or> n = 179 \<or> n = 181 \<or> n = 185 \<or> n = 186
         \<or> (188 \<le> n \<and> n \<le> 190) \<or> (192 \<le> n \<and> n \<le> 214)
         \<or> (216 \<le> n \<and> n \<le> 246) \<or> (248 \<le> n \<and> n \<le> 255))"

fun in_cls :: "cls \<Rightarrow> char \<Rightarrow> bool" where
  "in_cls Space c = is_space c"
| "in_cls WordChar c = is_word c"
| "in_cls AnyChar c = (c \<noteq> CHR ''\<newline>'')"

text \<open>
  The fragment of regular expressions the four patterns of the scanner are written in:
  literal text, \<open>x*\<close>, \<open>x+\<close> and \<open>x*?\<close> over a character class, alternation,
  concatenation and a capturing group.
\<close>

datatype regex =
    Lit string
  | Star cls
  | Plus cls
  | LazyStar cls
  | Alt regex regex
  | Seq regex regex
  | Group regex

text \<open>
  Backtracking is a list of alternatives in the order the matcher tries them: a greedy
  repetition offers the longest consumption first, a lazy one the shortest.
  Each alternative is the text still to be matched.
\<close>

fun greedy :: "(char \<Rightarrow> bool) \<Rightarrow> string \<Rightarrow> string list" where
  "greedy p [] = [[]]"
| "greedy p (c # cs) = (if p c then greedy p cs @ [c # cs] else [c # cs])"

fun lazy :: "(char \<Rightarrow> bool) \<Rightarrow> string \<Rightarrow> string list" where
  "lazy p [] = [[]]"
| "lazy p (c # cs) = (c # cs) # (if p c then lazy p cs else [])"

fun starts_with :: "string \<Rightarrow> string \<Rightarrow> bool" where
  "starts_with [] s = True"
| "starts_with (a # as) [] = False"
| "starts_with (a # as) (c # cs) = (a = c \<and> starts_with as cs)"

text \<open>
  \<open>rmatch r s g\<close>: the ways \<open>r\<close> matches a prefix of \<open>s\<close>, each as the remaining text
  and the groups captured so far (\<open>g\<close> extended), in backtracking order.
\<close>

fun rmatch :: "regex \<Rightarrow> string \<Rightarrow> string list \<Rightarrow> (string \<times> string list) list" where
  "rmatch (Lit l) s g = (if starts_with l s then [(drop (length l) s, g)] else [])"
| "rmatch (Star k) s g = map (\<lambda>r. (r, g)) (greedy (in_cls k) s)"
| "rmatch (Plus k) s g =
     (case s of [] \<Rightarrow> []
      | c # cs \<Rightarrow> if in_cls k c then map (\<lambda>r. (r, g)) (greedy (in_cls k) cs) else [])"
| "rmatch (LazyStar k) s g = map (\<lambda>r. (r, g)) (lazy (in_cls k) s)"
| "rmatch (Alt a b) s g = rmatch a s g @ rmatch b s g"
| "rmatch (Seq a b) s g = concat (map (\<lambda>(r, g'). rmatch b r g') (rmatch a s g))"
| "rmatch (Group a) s g =
     map (\<lambda>(r, g'). (r, g' @ [take (length s - length r) s])) (rmatch a s g)"

text \<open>
  \<open>re.search\<close>: the first alternative at the leftmost start position that has one;
  the result is the list of captured groups of the match object.
\<close>

fun re_search :: "regex \<Rightarrow> string \<Rightarrow> string list option" where
  "re_search r [] = (case rmatch r [] [] of [] \<Rightarrow> None | (_, g) # _ \<Rightarrow> Some g)"
| "re_search r (c # cs) =
     (case rmatch r (c # cs) [] of [] \<Rightarrow> re_search r cs | (_, g) # _ \<Rightarrow> Some g)"

definition group :: "string list \<Rightarrow> nat \<Rightarrow> string" where
  "group m n = m ! (n - 1)"

definition seqs :: "regex list \<Rightarrow> regex" where
  "seqs rs = foldr Seq rs (Lit [])"

definition table_re :: regex where
  \<open>table_re = seqs [Lit ''@Table(name'', Star Space, Lit ''='', Star Space, Lit ''"'',
                     Group (LazyStar AnyChar), Lit ''")'']\<close>

definition column_re :: regex where
  \<open>column_re = seqs [Lit ''@Column(name'', Star Space, Lit ''='', Star Space, Lit ''"'',
                      Group (LazyStar AnyChar), Lit ''")'']\<close>

definition field_re :: regex where
  "field_re = seqs [Group (Alt (Lit ''private'') (Alt (Lit ''protected'') (Lit ''public''))),
                    Plus Space, Group (Plus WordChar), Plus Space, Plus WordChar, Lit '';'']"

definition method_re :: regex where
  "method_re = seqs [Lit ''public'', Plus Space, Group (Plus WordChar), Plus Space,
                     Plus WordChar, Lit ''()'']"

section \<open>The entity scanner\<close>

datatype error = IndexError

definition index_list :: "'a list \<Rightarrow> nat \<Rightarrow> error + 'a" where
  "index_list xs j = (if j < length xs then Inr (xs ! j) else Inl IndexError)"

text \<open>Python's truth value of \<open>column_type\<close>, which is \<open>None\<close> or a string.\<close>

fun truthy :: "string option \<Rightarrow> bool" where
  "truthy None = False"
| "truthy (Some s) = (s \<noteq> [])"

type_synonym scan_state = "string option \<times> (string \<times> string) list"

text \<open>
  One pass of the body of \<open>for i, line in enumerate(lines)\<close>, on the state
  \<open>(table_name, columns)\<close>. The field pattern reads \<open>lines[i + 1]\<close> under the guard
  \<open>i + 1 < len(lines)\<close>; the accessor pattern reads it with no guard.
\<close>

definition scan_line :: "string list \<Rightarrow> nat \<Rightarrow> scan_state \<Rightarrow> error + scan_state" where
  "scan_line lines i st =
     (case st of (table_name, columns) \<Rightarrow>
        let line = lines ! i;
            table_name' = (case re_search table_re line of
                             Some table_match \<Rightarrow> Some (group table_match 1)
                           | None \<Rightarrow> table_name)
        in case re_search column_re line of
             None \<Rightarrow> Inr (table_name', columns)
           | Some column_match \<Rightarrow>
               let column_name = group column_match 1;
                   column_type =
                     (if i + 1 < length lines
                      then (case re_search field_re (lines ! (i + 1)) of
                              Some field_match \<Rightarrow> Some (group field_match 2)
                            | None \<Rightarrow> None)
                      else None)
               in case (if column_type = None
                        then (case index_list lines (i + 1) of
                                Inl e \<Rightarrow> Inl e
                              | Inr nxt \<Rightarrow>
                                  Inr (case re_search method_re nxt of
                                         Some method_match \<Rightarrow> Some (group method_match 1)
                                       | None \<Rightarrow> None))
                        else Inr column_type) of
                    Inl e \<Rightarrow> Inl e
                  | Inr column_type' \<Rightarrow>
                      Inr (table_name',
                           if truthy column_type'
                           then columns @ [(column_name, the column_type')]
                           else columns))"

fun scan_loop :: "string list \<Rightarrow> nat list \<Rightarrow> scan_state \<Rightarrow> error + scan_state" where
  "scan_loop lines [] st = Inr st"
| "scan_loop lines (i # is) st =
     (case scan_line lines i st of Inl e \<Rightarrow> Inl e | Inr st' \<Rightarrow> scan_loop lines is st')"

text \<open>
  \<open>parse_java_entity\<close> on the list \<open>file.readlines()\<close> returned. Opening the file is
  the caller's side.
\<close>

definition parse_java_entity :: "string list \<Rightarrow> error + scan_state" where
  "parse_java_entity lines = scan_loop lines [0..<length lines] (None, [])"

section \<open>The type mapper\<close>

definition type_mapping :: "(string \<times> string) list" where
  "type_mapping =
     [(''String'', ''VARCHAR(255)''),
      (''int'', ''INTEGER''),
      (''Integer'', ''INTEGER''),
      (''long'', ''BIGINT''),
      (''Long'', ''BIGINT''),
      (''boolean'', ''BOOLEAN''),
      (''Boolean'', ''BOOLEAN''),
      (''Date'', ''TIMESTAMP''),
      (''BigDecimal'', ''DECIMAL(19,2)'')]"

text \<open>\<open>type_mapping.get(java_type, 'VARCHAR(255)')\<close>\<close>

definition map_java_type_to_db_type :: "string \<Rightarrow> string" where
  "map_java_type_to_db_type java_type =
     (case map_of type_mapping java_type of Some db_type \<Rightarrow> db_type | None \<Rightarrow> ''VARCHAR(255)'')"

section \<open>The change generator\<close>

text \<open>
  What an f-string puts for \<open>{table_name}\<close>: the scanner's table name is \<open>None\<close> or a
  string, and \<open>None\<close> is formatted as the text \<open>None\<close>.
\<close>

fun fmt :: "string option \<Rightarrow> string" where
  "fmt None = ''None''"
| "fmt (Some s) = s"

text \<open>\<open>sep.join(xs)\<close>\<close>

fun join :: "string \<Rightarrow> string list \<Rightarrow> string" where
  "join sep [] = []"
| "join sep [x] = x"
| "join sep (x # y # ys) = x @ sep @ join sep (y # ys)"

definition generate_add_column_query :: "string option \<Rightarrow> string \<Rightarrow> string \<Rightarrow> string \<times> string" where
  \<open>generate_add_column_query table_name column_name column_type =
     (let db_type = map_java_type_to_db_type column_type
      in (''<addColumn tableName="'' @ fmt table_name @ ''">\<newline>    <column name="'' @ column_name
            @ ''" type="'' @ db_type @ ''"/>\<newline></addColumn>'',
          ''<dropColumn tableName="'' @ fmt table_name @ ''" columnName="'' @ column_name @ ''"/>''))\<close>

definition generate_delete_column_query :: "string option \<Rightarrow> string \<Rightarrow> string \<times> string" where
  \<open>generate_delete_column_query table_name column_name =
     (''<dropColumn tableName="'' @ fmt table_name @ ''" columnName="'' @ column_name @ ''"/>'',
      ''<addColumn tableName="'' @ fmt table_name @ ''">\<newline>    <column name="'' @ column_name
        @ ''" type="VARCHAR(255)"/>\<newline></addColumn>'')\<close>

definition generate_modify_column_query :: "string option \<Rightarrow> string \<Rightarrow> string \<Rightarrow> string \<times> string" where
  \<open>generate_modify_column_query table_name column_name column_type =
     (let db_type = map_java_type_to_db_type column_type
      in (''<modifyDataType tableName="'' @ fmt table_name @ ''" columnName="'' @ column_name
            @ ''" newDataType="'' @ db_type @ ''"/>'',
          ''<modifyDataType tableName="'' @ fmt table_name @ ''" columnName="'' @ column_name
            @ ''" newDataType="VARCHAR(255)"/>''))\<close>

text \<open>The loop of \<open>generate_create_table_query\<close> appends one line for each column.\<close>

fun column_lines :: "(string \<times> string) list \<Rightarrow> string list \<Rightarrow> string list" where
  "column_lines [] xml_lines = xml_lines"
| \<open>column_lines ((column_name, java_type) # columns) xml_lines =
     (let db_type = map_java_type_to_db_type java_type
      in column_lines columns
           (xml_lines @ [''    <column name="'' @ column_name @ ''" type="'' @ db_type @ ''"/>'']))\<close>

definition generate_create_table_query ::
  "string option \<Rightarrow> (string \<times> string) list \<Rightarrow> string \<times> string" where
  \<open>generate_create_table_query table_name columns =
     (let xml_lines = [''<createTable tableName="'' @ fmt table_name @ ''">''];
          rollback_lines = [''<dropTable tableName="'' @ fmt table_name @ ''"/>''];
          xml_lines = column_lines columns xml_lines;
          xml_lines = xml_lines @ [''</createTable>'']
      in (join ''\<newline>'' xml_lines, join ''\<newline>'' rollback_lines))\<close>

section \<open>The command line and the document writer\<close>

text \<open>
  The parsed command line. \<open>--add-column\<close> and \<open>--modify-column\<close> take two values
  (name and type), \<open>--delete-column\<close> one; an option that was not given is \<open>None\<close>.
\<close>

record args =
  "file" :: string
  add_column :: "(string \<times> string) option"
  delete_column :: "string option"
  modify_column :: "(string \<times> string) option"

text \<open>
  What a run leaves behind: the line it printed, and the file it wrote (path and
  content) if it wrote one.
\<close>

record outcome =
  printed :: string
  written :: "(string \<times> string) option"

text \<open>
  \<open>s.replace(old, new)\<close>: every occurrence of \<open>old\<close>, left to right and without
  overlap. With an empty \<open>old\<close>, Python puts \<open>new\<close> around every character.
\<close>

fun replace :: "string \<Rightarrow> string \<Rightarrow> string \<Rightarrow> string" where
  "replace [] new s = new @ concat (map (\<lambda>c. c # new) s)"
| "replace (a # as) new [] = []"
| "replace (a # as) new (c # cs) =
     (if starts_with (a # as) (c # cs)
      then new @ replace (a # as) new (drop (length as) cs)
      else c # replace (a # as) new cs)"

definition output_file :: "string \<Rightarrow> string" where
  "output_file path = replace ''.java'' ''_liquibase_query.xml'' path"

text \<open>
  The branch of \<open>main\<close> that picks the generator. The tests are Python truth values:
  a two-element list is true, a string is true when it is not empty. \<open>None\<close> as the
  result is the early return after the parse-failure message.
\<close>

definition select_query ::
  "args \<Rightarrow> string option \<Rightarrow> (string \<times> string) list \<Rightarrow> (string \<times> string) option" where
  "select_query a table_name columns =
     (case add_column a of
        Some (column_name, column_type) \<Rightarrow>
          Some (generate_add_column_query table_name column_name column_type)
      | None \<Rightarrow>
          if truthy (delete_column a)
          then Some (generate_delete_column_query table_name (the (delete_column a)))
          else (case modify_column a of
                  Some (column_name, column_type) \<Rightarrow>
                    Some (generate_modify_column_query table_name column_name column_type)
                | None \<Rightarrow>
                    if \<not> truthy table_name \<or> columns = [] then None
                    else Some (generate_create_table_query table_name columns)))"

text \<open>The text the writes of \<open>main\<close> put into the output file, one after the other.\<close>

definition document :: "string \<Rightarrow> string \<Rightarrow> string" where
  \<open>document query rollback_query =
     ''<?xml version="1.0" encoding="UTF-8"?>\<newline>''
     @ ''<databaseChangeLog xmlns="http://www.liquibase.org/xml/ns/dbchangelog"\<newline>''
     @ ''                  xmlns:xsi="http://www.w3.org/2001/XMLSchema-instance"\<newline>''
     @ ''                  xsi:schemaLocation="http://www.liquibase.org/xml/ns/dbchangelog\<newline>''
     @ ''                  http://www.liquibase.org/xml/ns/dbchangelog/dbchangelog-3.8.xsd">\<newline>''
     @ ''\<newline>    <changeSet id="1" author="generated">\<newline>''
     @ ''        '' @ query @ ''\<newline>''
     @ ''        <rollback>\<newline>            '' @ rollback_query @ ''\<newline>        </rollback>\<newline>''
     @ ''    </changeSet>\<newline>''
     @ ''</databaseChangeLog>\<newline>''\<close>

fun message :: "error \<Rightarrow> string" where
  "message IndexError = ''list index out of range''"

text \<open>
  \<open>main\<close>, on the parsed command line and the files that exist and can be read
  (each with the list of its lines). An exception inside the \<open>try\<close> block ends the run
  with its message printed and nothing written.
\<close>

definition main :: "args \<Rightarrow> (string \<rightharpoonup> string list) \<Rightarrow> outcome" where
  "main a fs =
     (case fs (file a) of
        None \<Rightarrow>
          \<lparr>printed = ''Error: File '' @ [CHR 0x27] @ file a @ [CHR 0x27] @ '' not found.'',
           written = None\<rparr>
      | Some lines \<Rightarrow>
          (case parse_java_entity lines of
             Inl e \<Rightarrow> \<lparr>printed = ''Error: '' @ message e, written = None\<rparr>
           | Inr (table_name, columns) \<Rightarrow>
               (case select_query a table_name columns of
                  None \<Rightarrow>
                    \<lparr>printed = ''Error: Could not parse table name or columns.'',
                     written = None\<rparr>
                | Some (query, rollback_query) \<Rightarrow>
                    \<lparr>printed = ''Liquibase XML created successfully: '' @ output_file (file a),
                     written = Some (output_file (file a), document query rollback_query)\<rparr>)))"

section \<open>What the scanner is to return\<close>

text \<open>
  The table name a single line declares, and the column an annotation line declares
  together with the line after it: the field pattern is tried first, the accessor
  pattern only when the field pattern does not match, and the column is recorded when
  a type was captured.
\<close>

definition table_of :: "string \<Rightarrow> string option" where
  "table_of line = map_option (\<lambda>table_match. group table_match 1) (re_search table_re line)"

definition type_of :: "string \<Rightarrow> string option" where
  "type_of nxt =
     (case re_search field_re nxt of
        Some field_match \<Rightarrow> Some (group field_match 2)
      | None \<Rightarrow> map_option (\<lambda>method_match. group method_match 1) (re_search method_re nxt))"

definition column_of :: "string \<Rightarrow> string \<Rightarrow> (string \<times> string) option" where
  "column_of line nxt =
     (case re_search column_re line of
        None \<Rightarrow> None
      | Some column_match \<Rightarrow>
          if truthy (type_of nxt) then Some (group column_match 1, the (type_of nxt)) else None)"

text \<open>
  The result in the words of the specification: the name of the last line that
  declares a table, and the columns of the annotation lines taken with their following
  lines, in the order of the file.
\<close>

definition spec_table_name :: "string list \<Rightarrow> string option" where
  "spec_table_name lines =
     (case rev (List.map_filter table_of lines) of [] \<Rightarrow> None | name # _ \<Rightarrow> Some name)"

definition spec_columns :: "string list \<Rightarrow> (string \<times> string) list" where
  "spec_columns lines = List.map_filter (\<lambda>(line, nxt). column_of line nxt) (zip lines (tl lines))"

text \<open>\<open>old in s\<close>: the text \<open>old\<close> occurs somewhere in \<open>s\<close>.\<close>

fun occurs_in :: "string \<Rightarrow> string \<Rightarrow> bool" where
  "occurs_in old [] = starts_with old []"
| "occurs_in old (c # cs) = (starts_with old (c # cs) \<or> occurs_in old cs)"

section \<open>The type mapper: claim C5\<close>

lemma map_java_type_unknown:
  "java_type \<notin> fst ` set type_mapping \<Longrightarrow> map_java_type_to_db_type java_type = ''VARCHAR(255)''"
  by (simp add: map_java_type_to_db_type_def map_of_eq_None_iff [THEN iffD2])

lemma type_mapping_keys:
  "fst ` set type_mapping = {''String'', ''int'', ''Integer'', ''long'', ''Long'', ''boolean'',
                             ''Boolean'', ''Date'', ''BigDecimal''}"
  by (simp add: type_mapping_def)

lemma map_java_type_String: "map_java_type_to_db_type ''String'' = ''VARCHAR(255)''"
  by (simp add: map_java_type_to_db_type_def type_mapping_def)

text \<open>
  Claim C5. \<open>map_java_type_to_db_type\<close> is a total function of its argument alone. Every
  string that is not one of the nine keys of the table maps to \<open>VARCHAR(255)\<close>, for
  instance \<open>UUID\<close>; \<open>long\<close> maps to \<open>BIGINT\<close> and \<open>Boolean\<close> to \<open>BOOLEAN\<close>. The keys are
  compared exactly and with their case: \<open>string\<close> and \<open>LONG\<close> are not keys and get the
  default.
\<close>

theorem map_java_type_to_db_type_total:
  "(java_type \<notin> {''String'', ''int'', ''Integer'', ''long'', ''Long'', ''boolean'', ''Boolean'',
                    ''Date'', ''BigDecimal''}
      \<longrightarrow> map_java_type_to_db_type java_type = ''VARCHAR(255)'')
   \<and> map_java_type_to_db_type ''UUID'' = ''VARCHAR(255)''
   \<and> map_java_type_to_db_type ''long'' = ''BIGINT''
   \<and> map_java_type_to_db_type ''Boolean'' = ''BOOLEAN''
   \<and> map_java_type_to_db_type ''string'' = ''VARCHAR(255)''
   \<and> map_java_type_to_db_type ''LONG'' = ''VARCHAR(255)''"
proof (intro conjI impI)
  assume "java_type \<notin> {''String'', ''int'', ''Integer'', ''long'', ''Long'', ''boolean'',
                        ''Boolean'', ''Date'', ''BigDecimal''}"
  then have "java_type \<notin> fst ` set type_mapping"
    unfolding type_mapping_keys .
  then show "map_java_type_to_db_type java_type = ''VARCHAR(255)''"
    by (rule map_java_type_unknown)
qed (simp_all add: map_java_type_to_db_type_def type_mapping_def)

theorem map_java_type_to_db_type_total_witness:
  "''Instant'' \<notin> {''String'', ''int'', ''Integer'', ''long'', ''Long'', ''boolean'', ''Boolean'',
                   ''Date'', ''BigDecimal''}
   \<and> map_java_type_to_db_type ''Instant'' = ''VARCHAR(255)''"
proof -
  have h: "''Instant'' \<notin> {''String'', ''int'', ''Integer'', ''long'', ''Long'', ''boolean'',
                           ''Boolean'', ''Date'', ''BigDecimal''}"
    by simp
  from map_java_type_to_db_type_total [of "''Instant''", THEN conjunct1, THEN mp, OF h]
  show ?thesis using h by (rule conjI [rotated])
qed

section \<open>Adding and deleting a column: claims C4 and C9\<close>

text \<open>
  Claim C4. For every table name and column name, \<open>generate_delete_column_query\<close>
  returns a forward fragment that drops the column and a rollback fragment that adds
  the column again with the type \<open>VARCHAR(255)\<close>. The function is not given the
  column's original type, so the rollback cannot depend on it.
\<close>

theorem generate_delete_column_query_fragments:
  \<open>generate_delete_column_query (Some table_name) column_name =
     (''<dropColumn tableName="'' @ table_name @ ''" columnName="'' @ column_name @ ''"/>'',
      ''<addColumn tableName="'' @ table_name @ ''">\<newline>    <column name="'' @ column_name
        @ ''" type="VARCHAR(255)"/>\<newline></addColumn>'')\<close>
  by (simp add: generate_delete_column_query_def)

text \<open>
  Claim C9. For every table name and column name, the rollback fragment of
  \<open>generate_add_column_query\<close>, whatever the column type, is the forward fragment of
  \<open>generate_delete_column_query\<close>; and the rollback fragment of
  \<open>generate_delete_column_query\<close> is the forward fragment of
  \<open>generate_add_column_query\<close> with any type that maps to \<open>VARCHAR(255)\<close>, such as
  \<open>String\<close>.
\<close>

theorem add_delete_inverse:
  "snd (generate_add_column_query table_name column_name column_type)
     = fst (generate_delete_column_query table_name column_name)
   \<and> (map_java_type_to_db_type column_type = ''VARCHAR(255)'' \<longrightarrow>
        snd (generate_delete_column_query table_name column_name)
          = fst (generate_add_column_query table_name column_name column_type))
   \<and> snd (generate_delete_column_query table_name column_name)
          = fst (generate_add_column_query table_name column_name ''String'')"
proof (intro conjI impI)
  show "snd (generate_add_column_query table_name column_name column_type)
     = fst (generate_delete_column_query table_name column_name)"
    by (simp add: generate_add_column_query_def generate_delete_column_query_def Let_def)
  show "snd (generate_delete_column_query table_name column_name)
          = fst (generate_add_column_query table_name column_name column_type)"
    if "map_java_type_to_db_type column_type = ''VARCHAR(255)''"
    using that
    by (simp add: generate_add_column_query_def generate_delete_column_query_def Let_def)
  show "snd (generate_delete_column_query table_name column_name)
          = fst (generate_add_column_query table_name column_name ''String'')"
    by (simp add: generate_add_column_query_def generate_delete_column_query_def Let_def
          map_java_type_String)
qed

theorem add_delete_inverse_witness:
  "map_java_type_to_db_type ''Object'' = ''VARCHAR(255)''
   \<and> snd (generate_delete_column_query (Some ''Employee'') ''email'')
       = fst (generate_add_column_query (Some ''Employee'') ''email'' ''Object'')"
proof -
  have h: "map_java_type_to_db_type ''Object'' = ''VARCHAR(255)''"
    by (simp add: map_java_type_to_db_type_def type_mapping_def)
  from add_delete_inverse [of "Some ''Employee''" "''email''" "''Object''",
      THEN conjunct2, THEN conjunct1, THEN mp, OF h]
  show ?thesis using h by (rule conjI [rotated])
qed

section \<open>A column annotation on the last line: claim C1\<close>

text \<open>
  Claim C1 says that \<open>parse_java_entity\<close> never raises on a file that can be opened, and
  that a column annotation on the last line is dropped. On the two-line file below
  the annotation is on the last line: the field pattern is skipped by its guard, the
  accessor pattern reads \<open>lines[i + 1]\<close> without one, and the scan ends in
  \<open>IndexError\<close>. \<open>main\<close> catches it, prints its message and writes nothing.
\<close>

theorem parse_java_entity_last_line_column_raises:
  \<open>parse_java_entity [''@Table(name = "Employee")\<newline>'', ''@Column(name = "id")'']
     = Inl IndexError
   \<and> main \<lparr>file = ''Employee.java'', add_column = None, delete_column = None,
            modify_column = None\<rparr>
          [''Employee.java'' \<mapsto> [''@Table(name = "Employee")\<newline>'', ''@Column(name = "id")'']]
       = \<lparr>printed = ''Error: list index out of range'', written = None\<rparr>\<close>
  by code_simp

section \<open>The scanner, line by line\<close>

lemma scan_loop_append:
  "scan_loop lines (xs @ ys) st =
     (case scan_loop lines xs st of Inl e \<Rightarrow> Inl e | Inr st' \<Rightarrow> scan_loop lines ys st')"
  by (induction xs arbitrary: st) (auto split: sum.splits)

lemma scan_line_last:
  assumes "Suc i = length lines"
  shows "scan_line lines i (tn, cols) =
     (if re_search column_re (lines ! i) \<noteq> None then Inl IndexError
      else Inr (case table_of (lines ! i) of Some n \<Rightarrow> Some n | None \<Rightarrow> tn, cols))"
  using assms
  by (simp add: scan_line_def table_of_def index_list_def Let_def split: option.splits)

lemma scan_line_inner:
  assumes "Suc i < length lines"
  shows "scan_line lines i (tn, cols) =
     Inr (case table_of (lines ! i) of Some n \<Rightarrow> Some n | None \<Rightarrow> tn,
          cols @ (case column_of (lines ! i) (lines ! Suc i) of Some c \<Rightarrow> [c] | None \<Rightarrow> []))"
  using assms
  by (simp add: scan_line_def table_of_def column_of_def type_of_def index_list_def Let_def
        split: option.splits)

lemma spec_table_name_Cons:
  "spec_table_name (l # ls) =
     (case spec_table_name ls of Some n \<Rightarrow> Some n | None \<Rightarrow> table_of l)"
  by (auto simp: spec_table_name_def List.map_filter_simps split: option.splits list.splits)

lemma spec_columns_Cons:
  "spec_columns (l # nxt # ls) =
     (case column_of l nxt of Some c \<Rightarrow> [c] | None \<Rightarrow> []) @ spec_columns (nxt # ls)"
  by (simp add: spec_columns_def List.map_filter_simps split: option.splits)

lemma spec_columns_single: "spec_columns [l] = []" and spec_columns_Nil: "spec_columns [] = []"
  by (simp_all add: spec_columns_def List.map_filter_simps)

lemma scan_loop_suffix:
  "lines = pre @ rest \<Longrightarrow>
   scan_loop lines [length pre ..< length pre + length rest] (tn, cols) =
     (if rest \<noteq> [] \<and> re_search column_re (last rest) \<noteq> None then Inl IndexError
      else Inr (case spec_table_name rest of Some n \<Rightarrow> Some n | None \<Rightarrow> tn,
                cols @ spec_columns rest))"
proof (induction rest arbitrary: pre tn cols)
  case Nil
  then show ?case by (simp add: spec_table_name_def spec_columns_Nil List.map_filter_simps)
next
  case (Cons l rest)
  have idx: "lines ! length pre = l"
    using Cons.prems by simp
  have upt: "[length pre ..< length pre + length (l # rest)]
               = length pre # [length (pre @ [l]) ..< length (pre @ [l]) + length rest]"
    using upt_conv_Cons [of "length pre" "length pre + Suc (length rest)"]
    by (simp del: upt_Suc)
  have split: "lines = (pre @ [l]) @ rest"
    using Cons.prems by simp
  note IH = Cons.IH [OF split]
  show ?case
  proof (cases rest)
    case Nil
    then have last: "Suc (length pre) = length lines"
      using Cons.prems by simp
    show ?thesis
      unfolding upt
      using Nil IH [of "case table_of l of Some n \<Rightarrow> Some n | None \<Rightarrow> tn" cols]
      by (simp add: scan_line_last [OF last] idx spec_table_name_Cons spec_columns_single
            spec_columns_Nil spec_table_name_def List.map_filter_simps split: option.splits)
  next
    case (Cons nxt rest')
    then have inner: "Suc (length pre) < length lines"
      using Cons.prems by simp
    have nxt: "lines ! Suc (length pre) = nxt"
      using Cons Cons.prems by (simp add: nth_append)
    show ?thesis
      unfolding upt
      using IH [of "case table_of l of Some n \<Rightarrow> Some n | None \<Rightarrow> tn"
                   "cols @ (case column_of l nxt of Some c \<Rightarrow> [c] | None \<Rightarrow> [])"]
      by (simp add: scan_line_inner [OF inner] idx nxt Cons spec_table_name_Cons [of l]
            spec_columns_Cons split: option.splits)
  qed
qed

lemma parse_java_entity_char:
  "parse_java_entity lines =
     (if lines \<noteq> [] \<and> re_search column_re (last lines) \<noteq> None then Inl IndexError
      else Inr (spec_table_name lines, spec_columns lines))"
  using scan_loop_suffix [of lines "[]" lines None "[]"]
  by (simp add: parse_java_entity_def split: option.splits)

section \<open>Replacing text in the path\<close>

lemma starts_with_append:
  "length old \<le> length s \<Longrightarrow> starts_with old (s @ t) = starts_with old s"
  by (induction old s rule: starts_with.induct) auto

lemma starts_with_self: "starts_with old (old @ t)"
  by (induction old) auto

lemma replace_skip:
  "\<not> starts_with (a # as) (c # cs) \<Longrightarrow>
   replace (a # as) new (c # cs) = c # replace (a # as) new cs"
  by (simp only: replace.simps if_False)

lemma replace_no_other_occurrence:
  assumes "old = a # as" and "\<not> occurs_in old (stem @ butlast old)"
  shows "replace old new (stem @ old) = stem @ new"
  using assms(2)
proof (induction stem)
  case Nil
  have "starts_with (a # as) (a # as)"
    using starts_with_self [of "a # as" "[]"] by simp
  then show ?case
    using assms(1) by simp
next
  case (Cons c cs)
  from Cons.prems have no_start: "\<not> starts_with old ((c # cs) @ butlast old)"
    and no_later: "\<not> occurs_in old (cs @ butlast old)"
    by simp_all
  have "length old \<le> length ((c # cs) @ butlast old)"
    using assms(1) by simp
  then have "starts_with old (((c # cs) @ butlast old) @ [last old])
               = starts_with old ((c # cs) @ butlast old)"
    by (rule starts_with_append)
  moreover have "((c # cs) @ butlast old) @ [last old] = (c # cs) @ old"
    using assms(1) by simp
  ultimately have "\<not> starts_with old (c # (cs @ old))"
    using no_start by simp
  then have "replace old new (c # (cs @ old)) = c # replace old new (cs @ old)"
    unfolding assms(1) by (rule replace_skip)
  then show ?case
    using Cons.IH [OF no_later] by simp
qed

section \<open>The run as a whole\<close>

lemma main_scanned:
  assumes "fs (file a) = Some lines" and "parse_java_entity lines = Inr (table_name, columns)"
  shows "main a fs =
     (case select_query a table_name columns of
        None \<Rightarrow> \<lparr>printed = ''Error: Could not parse table name or columns.'', written = None\<rparr>
      | Some (query, rollback_query) \<Rightarrow>
          \<lparr>printed = ''Liquibase XML created successfully: '' @ output_file (file a),
           written = Some (output_file (file a), document query rollback_query)\<rparr>)"
  using assms by (simp add: main_def)

lemma select_add:
  "add_column a = Some (cn, ct) \<Longrightarrow>
   select_query a tn cols = Some (generate_add_column_query tn cn ct)"
  by (simp add: select_query_def)

lemma select_delete:
  "add_column a = None \<Longrightarrow> delete_column a = Some cn \<Longrightarrow> cn \<noteq> [] \<Longrightarrow>
   select_query a tn cols = Some (generate_delete_column_query tn cn)"
  by (simp add: select_query_def)

lemma select_modify:
  "add_column a = None \<Longrightarrow> \<not> truthy (delete_column a) \<Longrightarrow> modify_column a = Some (cn, ct) \<Longrightarrow>
   select_query a tn cols = Some (generate_modify_column_query tn cn ct)"
  by (simp add: select_query_def)

lemma select_create:
  "add_column a = None \<Longrightarrow> \<not> truthy (delete_column a) \<Longrightarrow> modify_column a = None \<Longrightarrow>
   select_query a tn cols =
     (if \<not> truthy tn \<or> cols = [] then None else Some (generate_create_table_query tn cols))"
  by (simp add: select_query_def)

lemma single_mode_ignores_columns:
  assumes "add_column a \<noteq> None \<or> truthy (delete_column a) \<or> modify_column a \<noteq> None"
  shows "select_query a tn cols = select_query (a\<lparr>file := p\<rparr>) tn cols'"
    and "select_query a tn cols \<noteq> None"
  using assms by (auto simp: select_query_def split: option.splits)

lemma column_lines_append:
  "column_lines columns xml_lines =
     xml_lines @ map (\<lambda>(column_name, java_type).
        ''    <column name=\"'' @ column_name @ ''\" type=\"''
          @ map_java_type_to_db_type java_type @ ''\"/>'') columns"
  by (induction columns xml_lines rule: column_lines.induct) (simp_all add: Let_def)

lemma join_Cons_map:
  "join sep (x # map f ys) = x @ concat (map (\<lambda>y. sep @ f y) ys)"
  by (induction ys arbitrary: x) simp_all

lemma join_snoc: "join sep (x # xs @ [y]) = join sep (x # xs) @ sep @ y"
  by (induction xs arbitrary: x) simp_all

lemma generate_create_table_query_text:
  \<open>generate_create_table_query (Some table_name) columns =
     (''<createTable tableName="'' @ table_name @ ''">''
        @ concat (map (\<lambda>(column_name, java_type).
            ''\<newline>    <column name="'' @ column_name @ ''" type="''
              @ map_java_type_to_db_type java_type @ ''"/>'') columns)
        @ ''\<newline></createTable>'',
      ''<dropTable tableName="'' @ table_name @ ''"/>'')\<close>
proof -
  have \<open>join ''\<newline>'' ((''<createTable tableName="'' @ table_name @ ''">'')
           # map (\<lambda>(column_name, java_type).
               ''    <column name="'' @ column_name @ ''" type="''
                 @ map_java_type_to_db_type java_type @ ''"/>'') columns)
        = ''<createTable tableName="'' @ table_name @ ''">''
            @ concat (map (\<lambda>(column_name, java_type).
                ''\<newline>    <column name="'' @ column_name @ ''" type="''
                  @ map_java_type_to_db_type java_type @ ''"/>'') columns)\<close>
    by (simp add: join_Cons_map case_prod_unfold)
  then show ?thesis
    by (simp add: generate_create_table_query_def Let_def column_lines_append join_snoc)
qed

section \<open>The last table name and the order of the columns: claim C8\<close>

lemma map_filter_none: "\<forall>x\<in>set xs. f x = None \<Longrightarrow> List.map_filter f xs = []"
  by (induction xs) (simp_all add: List.map_filter_simps)

lemma spec_table_name_split:
  assumes "table_of l = Some name" and "\<forall>x\<in>set post. table_of x = None"
  shows "spec_table_name (pre @ l # post) = Some name"
proof -
  have "List.map_filter table_of (pre @ l # post) = List.map_filter table_of pre @ [name]"
    using assms by (simp add: List.map_filter_def)
  then show ?thesis
    by (simp add: spec_table_name_def)
qed

lemma spec_table_name_last_match:
  assumes "i < length lines" and "table_of (lines ! i) = Some name"
    and "\<forall>j. i < j \<and> j < length lines \<longrightarrow> table_of (lines ! j) = None"
  shows "spec_table_name lines = Some name"
proof -
  have "\<forall>x\<in>set (drop (Suc i) lines). table_of x = None"
  proof
    fix x assume "x \<in> set (drop (Suc i) lines)"
    then obtain k where "k < length (drop (Suc i) lines)" and "x = drop (Suc i) lines ! k"
      by (auto simp: in_set_conv_nth)
    then have "x = lines ! (Suc i + k)" and "Suc i + k < length lines"
      by simp_all
    with assms(3) show "table_of x = None" by simp
  qed
  then have "spec_table_name (take i lines @ lines ! i # drop (Suc i) lines) = Some name"
    by (rule spec_table_name_split [OF assms(2)])
  then show ?thesis
    using assms(1) by (simp add: id_take_nth_drop [symmetric])
qed

lemma spec_table_name_none:
  "\<forall>x\<in>set lines. table_of x = None \<Longrightarrow> spec_table_name lines = None"
  by (simp add: spec_table_name_def map_filter_none)

text \<open>
  Claim C8. When several lines match the table pattern, \<open>parse_java_entity\<close> returns the
  name captured from the last of them, and the columns it returns are in the order of
  the file. \<open>spec_table_name\<close> is the name of the last line that declares a table
  (\<open>spec_table_name_last_match\<close>), \<open>spec_columns\<close> the columns of the annotation lines
  in file order. Every scan that returns, returns exactly these two; and the scan
  returns whenever the last line carries no column annotation.
\<close>

theorem parse_java_entity_last_table_file_order:
  "(lines = [] \<or> re_search column_re (last lines) = None \<longrightarrow>
      parse_java_entity lines = Inr (spec_table_name lines, spec_columns lines))
   \<and> (parse_java_entity lines = Inr (table_name, columns) \<longrightarrow>
        table_name = spec_table_name lines \<and> columns = spec_columns lines)"
  by (simp add: parse_java_entity_char)

theorem parse_java_entity_last_table_file_order_witness:
  \<open>parse_java_entity
      [''@Table(name = "Old")\<newline>'', ''@Table(name = "Employee")\<newline>'',
       ''@Column(name = "id")\<newline>'', ''private Long id;\<newline>'',
       ''@Column(name = "email")\<newline>'', ''public String getEmail() {\<newline>'']
     = Inr (Some ''Employee'', [(''id'', ''Long''), (''email'', ''String'')])
   \<and> spec_table_name
      [''@Table(name = "Old")\<newline>'', ''@Table(name = "Employee")\<newline>'',
       ''@Column(name = "id")\<newline>'', ''private Long id;\<newline>'',
       ''@Column(name = "email")\<newline>'', ''public String getEmail() {\<newline>'']
     = Some ''Employee''
   \<and> spec_columns
      [''@Table(name = "Old")\<newline>'', ''@Table(name = "Employee")\<newline>'',
       ''@Column(name = "id")\<newline>'', ''private Long id;\<newline>'',
       ''@Column(name = "email")\<newline>'', ''public String getEmail() {\<newline>'']
     = [(''id'', ''Long''), (''email'', ''String'')]\<close>
proof -
  let ?lines = \<open>[''@Table(name = "Old")\<newline>'', ''@Table(name = "Employee")\<newline>'',
       ''@Column(name = "id")\<newline>'', ''private Long id;\<newline>'',
       ''@Column(name = "email")\<newline>'', ''public String getEmail() {\<newline>'']\<close>
  have h: "parse_java_entity ?lines = Inr (Some ''Employee'', [(''id'', ''Long''), (''email'', ''String'')])"
    by code_simp
  note r = parse_java_entity_last_table_file_order
         [of ?lines "Some ''Employee''" "[(''id'', ''Long''), (''email'', ''String'')]",
          THEN conjunct2, THEN mp, OF h]
  have a: "spec_table_name ?lines = Some ''Employee''"
    using r [THEN conjunct1] by (rule sym)
  have b: "spec_columns ?lines = [(''id'', ''Long''), (''email'', ''String'')]"
    using r [THEN conjunct2] by (rule sym)
  from h a b show ?thesis by (intro conjI)
qed

section \<open>The path of the output file: claim C2\<close>

text \<open>
  Claim C2, as amended. The output path is the input path with every occurrence of
  \<open>.java\<close> replaced by \<open>_liquibase_query.xml\<close>, from left to right. When the path ends
  in \<open>.java\<close> and \<open>.java\<close> occurs nowhere else in it, that is the path with its trailing
  suffix replaced.
\<close>

theorem output_file_replaces_suffix:
  "output_file path = replace ''.java'' ''_liquibase_query.xml'' path
   \<and> (\<not> occurs_in ''.java'' (stem @ ''.jav'') \<longrightarrow>
        output_file (stem @ ''.java'') = stem @ ''_liquibase_query.xml'')"
proof (intro conjI impI)
  show "output_file path = replace ''.java'' ''_liquibase_query.xml'' path"
    by (simp add: output_file_def)
  assume "\<not> occurs_in ''.java'' (stem @ ''.jav'')"
  then have "\<not> occurs_in ''.java'' (stem @ butlast ''.java'')" by simp
  then show "output_file (stem @ ''.java'') = stem @ ''_liquibase_query.xml''"
    unfolding output_file_def
    by (rule replace_no_other_occurrence [OF refl])
qed

theorem output_file_replaces_suffix_witness:
  "\<not> occurs_in ''.java'' (''model/Employee'' @ ''.jav'')
   \<and> output_file (''model/Employee'' @ ''.java'') = ''model/Employee'' @ ''_liquibase_query.xml''"
proof -
  have h: "\<not> occurs_in ''.java'' (''model/Employee'' @ ''.jav'')"
    by code_simp
  from output_file_replaces_suffix [of _ "''model/Employee''", THEN conjunct2, THEN mp, OF h]
  show ?thesis using h by (rule conjI [rotated])
qed

text \<open>
  As stated, the claim replaces only the trailing occurrence. A directory whose name
  contains \<open>.java\<close> is rewritten as well.
\<close>

theorem output_file_trailing_only_counterexample:
  "output_file ''src.java/Employee.java'' = ''src_liquibase_query.xml/Employee_liquibase_query.xml''
   \<and> output_file ''src.java/Employee.java'' \<noteq> ''src.java/Employee_liquibase_query.xml''"
  by code_simp

section \<open>Which generator runs: claim C6\<close>

text \<open>
  Claim C6, as amended. No combination of directives is an error. An add-column
  directive wins over the other two; a delete-column directive with a non-empty column
  name wins over modify-column; modify-column runs when there is no add-column
  directive and the delete-column directive is missing or has an empty name; and
  create-table runs when there is neither an add-column nor a modify-column directive
  and the delete-column directive is missing or has an empty name.
\<close>

theorem select_query_precedence:
  "(add_column a = Some (cn, ct) \<longrightarrow>
      select_query a tn cols = Some (generate_add_column_query tn cn ct))
   \<and> (add_column a = None \<and> delete_column a = Some cn \<and> cn \<noteq> [] \<longrightarrow>
      select_query a tn cols = Some (generate_delete_column_query tn cn))
   \<and> (add_column a = None \<and> \<not> truthy (delete_column a) \<and> modify_column a = Some (cn, ct) \<longrightarrow>
      select_query a tn cols = Some (generate_modify_column_query tn cn ct))
   \<and> (add_column a = None \<and> \<not> truthy (delete_column a) \<and> modify_column a = None \<longrightarrow>
      select_query a tn cols =
        (if \<not> truthy tn \<or> cols = [] then None else Some (generate_create_table_query tn cols)))"
  by (intro conjI impI) (simp_all add: select_add select_delete select_modify select_create)

theorem select_query_precedence_witness:
  "select_query \<lparr>file = ''Employee.java'', add_column = Some (''email'', ''String''),
                  delete_column = Some ''age'', modify_column = Some (''id'', ''Long'')\<rparr>
       (Some ''Employee'') [(''id'', ''int'')]
     = Some (generate_add_column_query (Some ''Employee'') ''email'' ''String'')
   \<and> select_query \<lparr>file = ''Employee.java'', add_column = None,
                  delete_column = Some ''age'', modify_column = Some (''id'', ''Long'')\<rparr>
       (Some ''Employee'') [(''id'', ''int'')]
     = Some (generate_delete_column_query (Some ''Employee'') ''age'')
   \<and> select_query \<lparr>file = ''Employee.java'', add_column = None,
                  delete_column = None, modify_column = Some (''id'', ''Long'')\<rparr>
       (Some ''Employee'') [(''id'', ''int'')]
     = Some (generate_modify_column_query (Some ''Employee'') ''id'' ''Long'')
   \<and> select_query \<lparr>file = ''Employee.java'', add_column = None,
                  delete_column = None, modify_column = None\<rparr>
       (Some ''Employee'') [(''id'', ''int'')]
     = Some (generate_create_table_query (Some ''Employee'') [(''id'', ''int'')])"
proof -
  let ?a1 = "\<lparr>file = ''Employee.java'', add_column = Some (''email'', ''String''),
              delete_column = Some ''age'', modify_column = Some (''id'', ''Long'')\<rparr>"
  let ?a2 = "\<lparr>file = ''Employee.java'', add_column = None,
              delete_column = Some ''age'', modify_column = Some (''id'', ''Long'')\<rparr>"
  let ?a3 = "\<lparr>file = ''Employee.java'', add_column = None,
              delete_column = None, modify_column = Some (''id'', ''Long'')\<rparr>"
  let ?a4 = "\<lparr>file = ''Employee.java'', add_column = None,
              delete_column = None, modify_column = None\<rparr>"
  have h1: "add_column ?a1 = Some (''email'', ''String'')" by simp
  have h2: "add_column ?a2 = None \<and> delete_column ?a2 = Some ''age'' \<and> ''age'' \<noteq> []" by simp
  have h3: "add_column ?a3 = None \<and> \<not> truthy (delete_column ?a3)
            \<and> modify_column ?a3 = Some (''id'', ''Long'')" by simp
  have h4: "add_column ?a4 = None \<and> \<not> truthy (delete_column ?a4) \<and> modify_column ?a4 = None"
    by simp
  note p1 = select_query_precedence [of ?a1 "''email''" "''String''" "Some ''Employee''"
      "[(''id'', ''int'')]", THEN conjunct1, THEN mp, OF h1]
  note p2 = select_query_precedence [of ?a2 "''age''" _ "Some ''Employee''"
      "[(''id'', ''int'')]", THEN conjunct2, THEN conjunct1, THEN mp, OF h2]
  note p3 = select_query_precedence [of ?a3 "''id''" "''Long''" "Some ''Employee''"
      "[(''id'', ''int'')]", THEN conjunct2, THEN conjunct2, THEN conjunct1, THEN mp, OF h3]
  have p4: "select_query ?a4 (Some ''Employee'') [(''id'', ''int'')]
     = Some (generate_create_table_query (Some ''Employee'') [(''id'', ''int'')])"
    using select_query_precedence [of ?a4 _ _ "Some ''Employee''"
      "[(''id'', ''int'')]", THEN conjunct2, THEN conjunct2, THEN conjunct2, THEN mp, OF h4]
    by simp
  from p1 p2 p3 p4 show ?thesis by (intro conjI)
qed

text \<open>
  As stated, the claim lets delete-column win over modify-column whenever both are
  supplied, and keeps create-table for the case that none is supplied. The test of
  \<open>args.delete_column\<close> is a truth test, and the empty string is false.
\<close>

theorem select_query_precedence_counterexample:
  "select_query \<lparr>file = ''Employee.java'', add_column = None, delete_column = Some [],
                  modify_column = Some (''age'', ''int'')\<rparr> (Some ''Employee'') [(''id'', ''Long'')]
     = Some (generate_modify_column_query (Some ''Employee'') ''age'' ''int'')
   \<and> select_query \<lparr>file = ''Employee.java'', add_column = None, delete_column = Some [],
                  modify_column = Some (''age'', ''int'')\<rparr> (Some ''Employee'') [(''id'', ''Long'')]
     \<noteq> Some (generate_delete_column_query (Some ''Employee'') [])
   \<and> select_query \<lparr>file = ''Employee.java'', add_column = None, delete_column = Some [],
                  modify_column = None\<rparr> (Some ''Employee'') [(''id'', ''Long'')]
     = Some (generate_create_table_query (Some ''Employee'') [(''id'', ''Long'')])"
  by code_simp

section \<open>Create-table mode: claim C3\<close>

text \<open>
  Claim C3, as amended. With no directive supplied, if the scanner returned an absent
  or empty table name or an empty column list, the run prints the parse-failure line
  and writes no file. Otherwise it writes the document whose forward fragment is a
  \<open>createTable\<close> element with one \<open>column\<close> element for every scanned column, in order
  and with its mapped type, and whose rollback fragment drops the table.
\<close>

theorem main_create_table:
  assumes "add_column a = None" and "delete_column a = None" and "modify_column a = None"
    and "fs (file a) = Some lines"
    and "parse_java_entity lines = Inr (table_name, columns)"
  shows \<open>main a fs =
     (if table_name = None \<or> table_name = Some [] \<or> columns = []
      then \<lparr>printed = ''Error: Could not parse table name or columns.'', written = None\<rparr>
      else \<lparr>printed = ''Liquibase XML created successfully: '' @ output_file (file a),
            written = Some (output_file (file a),
              document
                (''<createTable tableName="'' @ the table_name @ ''">''
                   @ concat (map (\<lambda>(column_name, java_type).
                       ''\<newline>    <column name="'' @ column_name @ ''" type="''
                         @ map_java_type_to_db_type java_type @ ''"/>'') columns)
                   @ ''\<newline></createTable>'')
                (''<dropTable tableName="'' @ the table_name @ ''"/>''))\<rparr>)\<close>
proof -
  have sel: "select_query a table_name columns =
     (if \<not> truthy table_name \<or> columns = [] then None
      else Some (generate_create_table_query table_name columns))"
    using assms(1-3) by (simp add: select_create)
  show ?thesis
  proof (cases table_name)
    case None
    then show ?thesis
      using sel by (simp add: main_scanned [where fs = fs and a = a, OF assms(4,5)])
  next
    case (Some name)
    then show ?thesis
      using sel
      by (simp add: main_scanned [where fs = fs and a = a, OF assms(4,5)] generate_create_table_query_text)
  qed
qed

theorem main_create_table_witness:
  \<open>main \<lparr>file = ''Employee.java'', add_column = None, delete_column = None,
          modify_column = None\<rparr>
        [''Employee.java'' \<mapsto>
           [''@Table(name = "Employee")\<newline>'', ''@Column(name = "id")\<newline>'',
            ''private Long id;\<newline>'']]
     = \<lparr>printed = ''Liquibase XML created successfully: Employee_liquibase_query.xml'',
        written = Some (''Employee_liquibase_query.xml'',
          document
            (''<createTable tableName="Employee">\<newline>    <column name="id" type="BIGINT"/>\<newline></createTable>'')
            (''<dropTable tableName="Employee"/>''))\<rparr>\<close>
proof -
  let ?a = "\<lparr>file = ''Employee.java'', add_column = None, delete_column = None,
             modify_column = None\<rparr>"
  let ?lines = \<open>[''@Table(name = "Employee")\<newline>'', ''@Column(name = "id")\<newline>'',
                 ''private Long id;\<newline>'']\<close>
  let ?fs = "[''Employee.java'' \<mapsto> ?lines]"
  have h1: "add_column ?a = None" and h2: "delete_column ?a = None"
    and h3: "modify_column ?a = None" and h4: "?fs (file ?a) = Some ?lines"
    by simp_all
  have h5: "parse_java_entity ?lines = Inr (Some ''Employee'', [(''id'', ''Long'')])"
    by code_simp
  have o: "output_file ''Employee.java'' = ''Employee_liquibase_query.xml''"
    by code_simp
  have m: "map_java_type_to_db_type ''Long'' = ''BIGINT''"
    by code_simp
  show ?thesis
    using main_create_table [where a = ?a and fs = ?fs, OF h1 h2 h3 h4 h5]
    by (simp add: o m)
qed

text \<open>
  As stated, the claim writes the file whenever the table name is not absent and the
  column list is not empty. A table annotation with an empty name gives a name that is
  present and empty, and \<open>not table_name\<close> rejects it.
\<close>

theorem main_create_table_counterexample:
  \<open>parse_java_entity [''@Table(name = "")\<newline>'', ''@Column(name = "id")\<newline>'', ''private Long id;\<newline>'']
     = Inr (Some [], [(''id'', ''Long'')])
   \<and> main \<lparr>file = ''Employee.java'', add_column = None, delete_column = None,
            modify_column = None\<rparr>
          [''Employee.java'' \<mapsto>
             [''@Table(name = "")\<newline>'', ''@Column(name = "id")\<newline>'', ''private Long id;\<newline>'']]
       = \<lparr>printed = ''Error: Could not parse table name or columns.'', written = None\<rparr>\<close>
  by code_simp

section \<open>The single-column modes and the scanned columns: claim C7\<close>

text \<open>
  Claim C7. In each of the three single-column modes the fragments do not depend on
  the column list the scanner returned: for two input files whose scans yield the same
  table name, the same directives select the same pair of fragments, and both runs
  write the same document.
\<close>

theorem single_column_modes_ignore_scanned_columns:
  assumes "add_column a \<noteq> None \<or> truthy (delete_column a) \<or> modify_column a \<noteq> None"
    and "fs (file a) = Some lines" and "fs p' = Some lines'"
    and "parse_java_entity lines = Inr (table_name, columns)"
    and "parse_java_entity lines' = Inr (table_name, columns')"
  shows "\<exists>query rollback_query.
           select_query a table_name columns = Some (query, rollback_query)
         \<and> select_query (a\<lparr>file := p'\<rparr>) table_name columns' = Some (query, rollback_query)
         \<and> written (main a fs) = Some (output_file (file a), document query rollback_query)
         \<and> written (main (a\<lparr>file := p'\<rparr>) fs) = Some (output_file p', document query rollback_query)"
proof -
  obtain query rollback_query
    where q: "select_query a table_name columns = Some (query, rollback_query)"
    using single_mode_ignores_columns(2) [OF assms(1), of table_name columns]
    by (cases "select_query a table_name columns") auto
  have q': "select_query (a\<lparr>file := p'\<rparr>) table_name columns' = Some (query, rollback_query)"
    using single_mode_ignores_columns(1) [OF assms(1), of table_name columns p' columns'] q
    by simp
  have w: "written (main a fs) = Some (output_file (file a), document query rollback_query)"
    using q by (simp add: main_scanned [where fs = fs and a = a, OF assms(2,4)])
  have fs': "fs (file (a\<lparr>file := p'\<rparr>)) = Some lines'"
    using assms(3) by simp
  have w': "written (main (a\<lparr>file := p'\<rparr>) fs) = Some (output_file p', document query rollback_query)"
    using q' by (simp add: main_scanned [where fs = fs and a = "a\<lparr>file := p'\<rparr>", OF fs' assms(5)])
  from q q' w w' show ?thesis by blast
qed

theorem single_column_modes_ignore_scanned_columns_witness:
  \<open>\<exists>query rollback_query.
      written (main \<lparr>file = ''Employee.java'', add_column = Some (''email'', ''String''),
                     delete_column = None, modify_column = None\<rparr>
                 [''Employee.java'' \<mapsto>
                    [''@Table(name = "Employee")\<newline>'', ''@Column(name = "id")\<newline>'',
                     ''private Long id;\<newline>''],
                  ''Staff.java'' \<mapsto>
                    [''@Table(name = "Employee")\<newline>'', ''@Column(name = "name")\<newline>'',
                     ''public String getName() {\<newline>'', ''}\<newline>'']])
        = Some (''Employee_liquibase_query.xml'', document query rollback_query)
    \<and> written (main \<lparr>file = ''Staff.java'', add_column = Some (''email'', ''String''),
                     delete_column = None, modify_column = None\<rparr>
                 [''Employee.java'' \<mapsto>
                    [''@Table(name = "Employee")\<newline>'', ''@Column(name = "id")\<newline>'',
                     ''private Long id;\<newline>''],
                  ''Staff.java'' \<mapsto>
                    [''@Table(name = "Employee")\<newline>'', ''@Column(name = "name")\<newline>'',
                     ''public String getName() {\<newline>'', ''}\<newline>'']])
        = Some (''Staff_liquibase_query.xml'', document query rollback_query)\<close>
proof -
  let ?a = "\<lparr>file = ''Employee.java'', add_column = Some (''email'', ''String''),
             delete_column = None, modify_column = None\<rparr>"
  let ?l1 = \<open>[''@Table(name = "Employee")\<newline>'', ''@Column(name = "id")\<newline>'',
               ''private Long id;\<newline>'']\<close>
  let ?l2 = \<open>[''@Table(name = "Employee")\<newline>'', ''@Column(name = "name")\<newline>'',
               ''public String getName() {\<newline>'', ''}\<newline>'']\<close>
  let ?fs = "[''Employee.java'' \<mapsto> ?l1, ''Staff.java'' \<mapsto> ?l2]"
  have h1: "add_column ?a \<noteq> None \<or> truthy (delete_column ?a) \<or> modify_column ?a \<noteq> None"
    by simp
  have h2: "?fs (file ?a) = Some ?l1" by simp
  have h3: "?fs ''Staff.java'' = Some ?l2" by simp
  have h4: "parse_java_entity ?l1 = Inr (Some ''Employee'', [(''id'', ''Long'')])"
    by code_simp
  have h5: "parse_java_entity ?l2 = Inr (Some ''Employee'', [(''name'', ''String'')])"
    by code_simp
  have o1: "output_file ''Employee.java'' = ''Employee_liquibase_query.xml''"
    by code_simp
  have o2: "output_file ''Staff.java'' = ''Staff_liquibase_query.xml''"
    by code_simp
  from single_column_modes_ignore_scanned_columns
         [where a = ?a and fs = ?fs and p' = "''Staff.java''", OF h1 h2 h3 h4 h5]
  obtain query rollback_query where
    w1: "written (main ?a ?fs) = Some (output_file (file ?a), document query rollback_query)"
    and w2: "written (main (?a\<lparr>file := ''Staff.java''\<rparr>) ?fs)
               = Some (output_file ''Staff.java'', document query rollback_query)"
    by blast
  from w1 have w1': "written (main ?a ?fs)
       = Some (''Employee_liquibase_query.xml'', document query rollback_query)"
    by (simp add: o1)
  from w2 have w2': "written (main \<lparr>file = ''Staff.java'', add_column = Some (''email'', ''String''),
                     delete_column = None, modify_column = None\<rparr> ?fs)
       = Some (''Staff_liquibase_query.xml'', document query rollback_query)"
    by (simp add: o2)
  from w1' w2' show ?thesis by (intro exI conjI)
qed

section \<open>The single-column modes without a table name: claim C10\<close>

text \<open>
  Claim C10, as amended. When the scanner found no table declaration and an add-column
  directive, a modify-column directive or a delete-column directive with a non-empty
  column name is supplied, no error is reported: the run writes the document of the
  selected mode, in which every \<open>tableName\<close> attribute of the two fragments has the
  value \<open>None\<close>, the text Python prints for the absent name.
\<close>

theorem single_column_modes_without_table:
  assumes "fs (file a) = Some lines" and "parse_java_entity lines = Inr (None, columns)"
  shows \<open>(add_column a = Some (cn, ct) \<longrightarrow>
      main a fs =
        \<lparr>printed = ''Liquibase XML created successfully: '' @ output_file (file a),
         written = Some (output_file (file a),
           document
             (''<addColumn tableName="None">\<newline>    <column name="'' @ cn @ ''" type="''
                @ map_java_type_to_db_type ct @ ''"/>\<newline></addColumn>'')
             (''<dropColumn tableName="None" columnName="'' @ cn @ ''"/>''))\<rparr>)
   \<and> (add_column a = None \<and> delete_column a = Some cn \<and> cn \<noteq> [] \<longrightarrow>
      main a fs =
        \<lparr>printed = ''Liquibase XML created successfully: '' @ output_file (file a),
         written = Some (output_file (file a),
           document
             (''<dropColumn tableName="None" columnName="'' @ cn @ ''"/>'')
             (''<addColumn tableName="None">\<newline>    <column name="'' @ cn
                @ ''" type="VARCHAR(255)"/>\<newline></addColumn>''))\<rparr>)
   \<and> (add_column a = None \<and> \<not> truthy (delete_column a) \<and> modify_column a = Some (cn, ct) \<longrightarrow>
      main a fs =
        \<lparr>printed = ''Liquibase XML created successfully: '' @ output_file (file a),
         written = Some (output_file (file a),
           document
             (''<modifyDataType tableName="None" columnName="'' @ cn @ ''" newDataType="''
                @ map_java_type_to_db_type ct @ ''"/>'')
             (''<modifyDataType tableName="None" columnName="'' @ cn
                @ ''" newDataType="VARCHAR(255)"/>''))\<rparr>)\<close>
proof (intro conjI impI)
  assume "add_column a = Some (cn, ct)"
  then have "select_query a None columns = Some (generate_add_column_query None cn ct)"
    by (rule select_add)
  then show \<open>main a fs =
      \<lparr>printed = ''Liquibase XML created successfully: '' @ output_file (file a),
       written = Some (output_file (file a),
         document
           (''<addColumn tableName="None">\<newline>    <column name="'' @ cn @ ''" type="''
              @ map_java_type_to_db_type ct @ ''"/>\<newline></addColumn>'')
           (''<dropColumn tableName="None" columnName="'' @ cn @ ''"/>''))\<rparr>\<close>
    by (simp add: main_scanned [where fs = fs and a = a, OF assms] generate_add_column_query_def Let_def)
next
  assume "add_column a = None \<and> delete_column a = Some cn \<and> cn \<noteq> []"
  then have "select_query a None columns = Some (generate_delete_column_query None cn)"
    by (simp add: select_delete)
  then show \<open>main a fs =
      \<lparr>printed = ''Liquibase XML created successfully: '' @ output_file (file a),
       written = Some (output_file (file a),
         document
           (''<dropColumn tableName="None" columnName="'' @ cn @ ''"/>'')
           (''<addColumn tableName="None">\<newline>    <column name="'' @ cn
              @ ''" type="VARCHAR(255)"/>\<newline></addColumn>''))\<rparr>\<close>
    by (simp add: main_scanned [where fs = fs and a = a, OF assms] generate_delete_column_query_def)
next
  assume "add_column a = None \<and> \<not> truthy (delete_column a) \<and> modify_column a = Some (cn, ct)"
  then have "select_query a None columns = Some (generate_modify_column_query None cn ct)"
    by (simp add: select_modify)
  then show \<open>main a fs =
      \<lparr>printed = ''Liquibase XML created successfully: '' @ output_file (file a),
       written = Some (output_file (file a),
         document
           (''<modifyDataType tableName="None" columnName="'' @ cn @ ''" newDataType="''
              @ map_java_type_to_db_type ct @ ''"/>'')
           (''<modifyDataType tableName="None" columnName="'' @ cn
              @ ''" newDataType="VARCHAR(255)"/>''))\<rparr>\<close>
    by (simp add: main_scanned [where fs = fs and a = a, OF assms] generate_modify_column_query_def Let_def)
qed

theorem single_column_modes_without_table_witness:
  \<open>main \<lparr>file = ''Employee.java'', add_column = None, delete_column = Some ''age'',
          modify_column = None\<rparr>
        [''Employee.java'' \<mapsto> [''@Column(name = "id")\<newline>'', ''private Long id;\<newline>'']]
     = \<lparr>printed = ''Liquibase XML created successfully: Employee_liquibase_query.xml'',
        written = Some (''Employee_liquibase_query.xml'',
          document
            (''<dropColumn tableName="None" columnName="age"/>'')
            (''<addColumn tableName="None">\<newline>    <column name="age" type="VARCHAR(255)"/>\<newline></addColumn>''))\<rparr>\<close>
proof -
  let ?a = "\<lparr>file = ''Employee.java'', add_column = None, delete_column = Some ''age'',
             modify_column = None\<rparr>"
  let ?lines = \<open>[''@Column(name = "id")\<newline>'', ''private Long id;\<newline>'']\<close>
  let ?fs = "[''Employee.java'' \<mapsto> ?lines]"
  have h1: "?fs (file ?a) = Some ?lines" by simp
  have h2: "parse_java_entity ?lines = Inr (None, [(''id'', ''Long'')])"
    by code_simp
  have h3: "add_column ?a = None \<and> delete_column ?a = Some ''age'' \<and> ''age'' \<noteq> []"
    by simp
  have o: "output_file ''Employee.java'' = ''Employee_liquibase_query.xml''"
    by code_simp
  show ?thesis
    using single_column_modes_without_table [where a = ?a and fs = ?fs and cn = "''age''",
        OF h1 h2, THEN conjunct2, THEN conjunct1, THEN mp, OF h3]
    by (simp add: o)
qed

text \<open>
  As stated, the claim covers every delete-column directive. One with an empty column
  name is false for the truth test of \<open>main\<close>; alone, it leaves the run in create-table
  mode, which reports the missing table name.
\<close>

theorem single_column_modes_without_table_counterexample:
  \<open>parse_java_entity [''@Column(name = "id")\<newline>'', ''private Long id;\<newline>'']
     = Inr (None, [(''id'', ''Long'')])
   \<and> main \<lparr>file = ''Employee.java'', add_column = None, delete_column = Some [],
            modify_column = None\<rparr>
          [''Employee.java'' \<mapsto> [''@Column(name = "id")\<newline>'', ''private Long id;\<newline>'']]
       = \<lparr>printed = ''Error: Could not parse table name or columns.'', written = None\<rparr>\<close>
  by code_simp

end
